theory Spec2Isabelle
  imports Main "HOL-Library.Word"
begin

section \<open>Errors and message formatting\<close>

text \<open>
  Go errors as values. \<open>errorString\<close> is what \<open>errors.New\<close> builds and also stands for
  the opaque errors handed back by the operating system and the cluster API;
  \<open>wrapError msg err\<close> is what \<open>fmt.Errorf\<close> builds for a format that ends in \<open>%w\<close>:
  the formatted message together with the wrapped error;
  \<open>UnmarshalTypeError value struct field type\<close> is the JSON decoder's type error.
\<close>

datatype error =
    errorString string
  | wrapError string error
  | UnmarshalTypeError string string string string

fun Error :: "error \<Rightarrow> string" where
  "Error (errorString s) = s"
| "Error (wrapError msg err) = msg"
| "Error (UnmarshalTypeError v s f t) =
     (if s \<noteq> [] \<or> f \<noteq> []
      then ''json: cannot unmarshal '' @ v @ '' into Go struct field '' @ s @ ''.'' @ f
             @ '' of type '' @ t
      else ''json: cannot unmarshal '' @ v @ '' into Go value of type '' @ t)"

fun Unwrap :: "error \<Rightarrow> error option" where
  "Unwrap (wrapError msg err) = Some err"
| "Unwrap e = None"

text \<open>\<open>fmt.Errorf (prefix ^ "%w") err\<close>: every format of the program ends in \<open>: %w\<close>.\<close>

definition Errorf_w :: "string \<Rightarrow> error \<Rightarrow> error" where
  "Errorf_w prefix err = wrapError (prefix @ Error err) err"

text \<open>The verb \<open>'%s'\<close>: the argument between single quotes.\<close>

definition sq :: "string \<Rightarrow> string" where
  "sq s = [CHR 0x27] @ s @ [CHR 0x27]"

text \<open>The verb \<open>%d\<close> on a signed integer.\<close>

fun string_of_nat :: "nat \<Rightarrow> string" where
  "string_of_nat n =
     (if n < 10 then [char_of (48 + n)]
      else string_of_nat (n div 10) @ [char_of (48 + n mod 10)])"

definition string_of_int :: "int \<Rightarrow> string" where
  "string_of_int i = (if i < 0 then CHR ''-'' # string_of_nat (nat (- i)) else string_of_nat (nat i))"

definition ErrNotFound :: error where
  "ErrNotFound = errorString ''not found''"

section \<open>Settings, pool membership and the cluster API\<close>

text \<open>
  Go's \<open>int\<close> is taken at its width on 64-bit platforms; the member identifier is a
  \<open>uint64\<close>. The conversion \<open>uint64(vmid)\<close> sign-extends and truncates to 64 bits.
\<close>

type_synonym go_int = "64 word"
type_synonym uint64 = "64 word"

definition uint64_of_int :: "go_int \<Rightarrow> uint64" where
  "uint64_of_int v = word_of_int (sint v)"

text \<open>
  Modelled from the spec: the declaration of the settings struct is not among the source
  files. The spec lists its content (cluster base URL, pool name, credential file path,
  insecure-TLS flag) and the functions read it as \<open>ig.Settings.URL\<close>,
  \<open>ig.Settings.Pool\<close>, \<open>ig.Settings.CredentialsFilePath\<close> and
  \<open>ig.Settings.InsecureSkipTLSVerify\<close>.
\<close>

record Settings =
  URL :: string
  Pool :: string
  CredentialsFilePath :: string
  InsecureSkipTLSVerify :: bool

text \<open>The fields of a pool member (\<open>proxmox.ClusterResource\<close>) that the program reads.\<close>

record ClusterResource =
  Type :: string
  VMID :: uint64
  Node :: string

record ProxmoxPool =
  Members :: "ClusterResource list"

text \<open>
  The read calls of the cluster client that the resolver uses, as the answers the
  cluster gives: pool by name, node by name, instance by node and identifier.
\<close>

record ('n, 'vm) ClusterAPI =
  api_Pool :: "string \<Rightarrow> error + ProxmoxPool"
  api_Node :: "string \<Rightarrow> error + 'n"
  api_VirtualMachine :: "'n \<Rightarrow> go_int \<Rightarrow> error + 'vm"

section \<open>Instance resolver\<close>

definition getProxmoxPool :: "Settings \<Rightarrow> ('n, 'vm) ClusterAPI \<Rightarrow> error + ProxmoxPool" where
  "getProxmoxPool st api =
     (case api_Pool api (Pool st) of
        Inl err \<Rightarrow> Inl (Errorf_w (''failed to get pool id='' @ sq (Pool st) @ '': '') err)
      | Inr pool \<Rightarrow> Inr pool)"

definition getProxmoxVMOnNode ::
  "('n, 'vm) ClusterAPI \<Rightarrow> go_int \<Rightarrow> string \<Rightarrow> error + 'vm" where
  "getProxmoxVMOnNode api vmid nodeName =
     (case api_Node api nodeName of
        Inl err \<Rightarrow> Inl (Errorf_w (''failed to get node='' @ sq nodeName @ '': '') err)
      | Inr node \<Rightarrow>
          (case api_VirtualMachine api node vmid of
             Inl err \<Rightarrow>
               Inl (Errorf_w (''failed to get vm='' @ sq (string_of_int (sint vmid))
                                @ '' on node='' @ sq nodeName @ '': '') err)
           | Inr vm \<Rightarrow> Inr vm))"

text \<open>The loop over \<open>pool.Members\<close> of \<open>getProxmoxVM\<close>.\<close>

fun scanMembers ::
  "('n, 'vm) ClusterAPI \<Rightarrow> go_int \<Rightarrow> ClusterResource list \<Rightarrow> error + 'vm" where
  "scanMembers api vmid [] = Inl ErrNotFound"
| "scanMembers api vmid (member # rest) =
     (if Type member \<noteq> ''qemu'' then scanMembers api vmid rest
      else if VMID member = uint64_of_int vmid
           then getProxmoxVMOnNode api vmid (Node member)
           else scanMembers api vmid rest)"

definition getProxmoxVM :: "Settings \<Rightarrow> ('n, 'vm) ClusterAPI \<Rightarrow> go_int \<Rightarrow> error + 'vm" where
  "getProxmoxVM st api vmid =
     (case getProxmoxPool st api of
        Inl err \<Rightarrow> Inl err
      | Inr pool \<Rightarrow> scanMembers api vmid (Members pool))"

section \<open>Credential record and its JSON decoding\<close>

record Credentials =
  Username :: string
  Password :: string
  TokenID :: string
  OtpSecret :: string
  Path :: string
  Privs :: string
  Realm :: string

definition emptyCredentials :: Credentials where
  "emptyCredentials =
     \<lparr>Username = [], Password = [], TokenID = [], OtpSecret = [], Path = [], Privs = [],
      Realm = []\<rparr>"

text \<open>
  The fields of the struct in declaration order, each with the key of its \<open>json\<close> tag
  (the tag of \<open>TokenID\<close> is \<open>token,omitifempty\<close>: its key is \<open>token\<close>, and the
  options after the comma only concern encoding).
\<close>

datatype CredentialsField =
  fUsername | fPassword | fTokenID | fOtpSecret | fPath | fPrivs | fRealm

definition credentialsFields :: "CredentialsField list" where
  "credentialsFields = [fUsername, fPassword, fTokenID, fOtpSecret, fPath, fPrivs, fRealm]"

fun fieldKey :: "CredentialsField \<Rightarrow> string" where
  "fieldKey fUsername = ''username''"
| "fieldKey fPassword = ''password''"
| "fieldKey fTokenID = ''token''"
| "fieldKey fOtpSecret = ''otpsecret''"
| "fieldKey fPath = ''path''"
| "fieldKey fPrivs = ''privs''"
| "fieldKey fRealm = ''realm''"

fun getField :: "CredentialsField \<Rightarrow> Credentials \<Rightarrow> string" where
  "getField fUsername c = Username c"
| "getField fPassword c = Password c"
| "getField fTokenID c = TokenID c"
| "getField fOtpSecret c = OtpSecret c"
| "getField fPath c = Path c"
| "getField fPrivs c = Privs c"
| "getField fRealm c = Realm c"

fun setField :: "CredentialsField \<Rightarrow> string \<Rightarrow> Credentials \<Rightarrow> Credentials" where
  "setField fUsername v c = c\<lparr>Username := v\<rparr>"
| "setField fPassword v c = c\<lparr>Password := v\<rparr>"
| "setField fTokenID v c = c\<lparr>TokenID := v\<rparr>"
| "setField fOtpSecret v c = c\<lparr>OtpSecret := v\<rparr>"
| "setField fPath v c = c\<lparr>Path := v\<rparr>"
| "setField fPrivs v c = c\<lparr>Privs := v\<rparr>"
| "setField fRealm v c = c\<lparr>Realm := v\<rparr>"

text \<open>
  A JSON value as the decoder of \<open>encoding/json\<close> sees it: object members in the order
  of the text, duplicates kept, strings already unquoted.
\<close>

datatype json =
    JNull
  | JBool bool
  | JNumber string
  | JString string
  | JArray "json list"
  | JObject "(string \<times> json) list"

fun jsonKind :: "json \<Rightarrow> string" where
  "jsonKind JNull = ''null''"
| "jsonKind (JBool b) = ''bool''"
| "jsonKind (JNumber n) = ''number''"
| "jsonKind (JString s) = ''string''"
| "jsonKind (JArray xs) = ''array''"
| "jsonKind (JObject kvs) = ''object''"

text \<open>
  The decoder matches an object key to a field by its exact key first and by its
  case-folded key otherwise. Folding maps an ASCII letter to its capital; of the runes
  outside ASCII only U+017F (bytes C5 BF) and U+212A (bytes E2 84 AA) fold to an ASCII
  letter, \<open>S\<close> and \<open>K\<close>. Every other rune folds to a rune outside ASCII, which no key of
  the struct contains, so its bytes are kept as they are.
\<close>

definition asciiUpper :: "char \<Rightarrow> char" where
  "asciiUpper c =
     (let n = (of_char c :: nat) in if 97 \<le> n \<and> n \<le> 122 then char_of (n - 32) else c)"

fun foldName :: "string \<Rightarrow> string" where
  "foldName [] = []"
| "foldName (c # cs) =
     (if c = CHR 0xC5 \<and> take 1 cs = [CHR 0xBF] then CHR ''S'' # foldName (drop 1 cs)
      else if c = CHR 0xE2 \<and> take 2 cs = [CHR 0x84, CHR 0xAA]
           then CHR ''K'' # foldName (drop 2 cs)
           else asciiUpper c # foldName cs)"

definition lookupField :: "string \<Rightarrow> CredentialsField option" where
  "lookupField key =
     (case find (\<lambda>f. fieldKey f = key) credentialsFields of
        Some f \<Rightarrow> Some f
      | None \<Rightarrow> find (\<lambda>f. foldName (fieldKey f) = foldName key) credentialsFields)"

text \<open>The decoder keeps the first type error it meets and goes on decoding.\<close>

definition saveError :: "error option \<Rightarrow> error \<Rightarrow> error option" where
  "saveError saved err = (case saved of None \<Rightarrow> Some err | Some e \<Rightarrow> Some e)"

text \<open>
  One object member stored into the struct: a key that matches no field is skipped, a
  string is stored, \<open>null\<close> leaves the field as it is, any other value is a type error.
\<close>

definition decodeMember ::
  "string \<times> json \<Rightarrow> error option \<times> Credentials \<Rightarrow> error option \<times> Credentials" where
  "decodeMember kv acc =
     (case lookupField (fst kv) of
        None \<Rightarrow> acc
      | Some f \<Rightarrow>
          (case snd kv of
             JString s \<Rightarrow> (fst acc, setField f s (snd acc))
           | JNull \<Rightarrow> acc
           | _ \<Rightarrow>
               (saveError (fst acc)
                  (UnmarshalTypeError (jsonKind (snd kv)) ''Credentials'' (fieldKey f) ''string''),
                snd acc)))"

fun decodeMembers ::
  "(string \<times> json) list \<Rightarrow> error option \<times> Credentials \<Rightarrow> error option \<times> Credentials" where
  "decodeMembers [] acc = acc"
| "decodeMembers (kv # rest) acc = decodeMembers rest (decodeMember kv acc)"

text \<open>
  \<open>Unmarshal\<close> of a value into a \<open>Credentials\<close> struct: \<open>null\<close> changes nothing, an object
  is stored member by member, any other value is a type error.
\<close>

definition unmarshalCredentials :: "json \<Rightarrow> Credentials \<Rightarrow> error option \<times> Credentials" where
  "unmarshalCredentials v c =
     (case v of
        JNull \<Rightarrow> (None, c)
      | JObject kvs \<Rightarrow> decodeMembers kvs (None, c)
      | _ \<Rightarrow> (Some (UnmarshalTypeError (jsonKind v) [] [] ''plugin.Credentials''), c))"

section \<open>Files\<close>

text \<open>
  What the program reads of a file: either the decoder cannot take a value from it (a
  read error, an empty file, a syntax error) or it holds a first JSON value. The file
  system answers \<open>os.Open\<close> with an error or with the file. The handles that the process
  holds open are state.
\<close>

type_synonym FileContent = "error + json"
type_synonym FileSystem = "string \<Rightarrow> error + FileContent"

record File =
  fd :: nat
  content :: FileContent

definition freshFd :: "nat list \<Rightarrow> nat" where
  "freshFd fds = Suc (foldr max fds 0)"

definition os_Open :: "FileSystem \<Rightarrow> string \<Rightarrow> nat list \<Rightarrow> (error + File) \<times> nat list" where
  "os_Open fs name fds =
     (case fs name of
        Inl err \<Rightarrow> (Inl err, fds)
      | Inr c \<Rightarrow> (Inr \<lparr>fd = freshFd fds, content = c\<rparr>, freshFd fds # fds))"

definition file_Close :: "File \<Rightarrow> nat list \<Rightarrow> nat list" where
  "file_Close f fds = removeAll (fd f) fds"

text \<open>\<open>json.NewDecoder(file).Decode(&credentials)\<close>.\<close>

definition Decode :: "File \<Rightarrow> Credentials \<Rightarrow> error + Credentials" where
  "Decode f c =
     (case content f of
        Inl err \<Rightarrow> Inl err
      | Inr v \<Rightarrow>
          (case unmarshalCredentials v c of
             (Some err, c') \<Rightarrow> Inl err
           | (None, c') \<Rightarrow> Inr c'))"

section \<open>Credential store reader\<close>

text \<open>The deferred \<open>Close\<close> runs on both returns that follow a successful \<open>Open\<close>.\<close>

definition getProxmoxCredentials ::
  "FileSystem \<Rightarrow> Settings \<Rightarrow> nat list \<Rightarrow> (error + Credentials) \<times> nat list" where
  "getProxmoxCredentials fs st fds =
     (case os_Open fs (CredentialsFilePath st) fds of
        (Inl err, fds1) \<Rightarrow>
          (Inl (Errorf_w (''failed to open credentials file from path=''
                           @ sq (CredentialsFilePath st) @ '': '') err), fds1)
      | (Inr credentialsFile, fds1) \<Rightarrow>
          (case Decode credentialsFile emptyCredentials of
             Inl err \<Rightarrow>
               (Inl (Errorf_w (''failed to decode credentials file from path=''
                                @ sq (CredentialsFilePath st) @ '': '') err),
                file_Close credentialsFile fds1)
           | Inr credentials \<Rightarrow> (Inr credentials, file_Close credentialsFile fds1)))"

section \<open>Cluster client factory\<close>

text \<open>
  The login record of the client library (\<open>proxmox.Credentials\<close>); the program starts
  from its zero value and assigns fields. \<open>pve_Otp\<close> is a field of the library's record
  that the program never assigns.
\<close>

record ProxmoxCredentials =
  pve_Username :: string
  pve_Password :: string
  pve_Otp :: string
  pve_Path :: string
  pve_Privs :: string
  pve_Realm :: string

definition zeroProxmoxCredentials :: ProxmoxCredentials where
  "zeroProxmoxCredentials =
     \<lparr>pve_Username = [], pve_Password = [], pve_Otp = [], pve_Path = [], pve_Privs = [],
      pve_Realm = []\<rparr>"

record HTTPClient =
  tls_InsecureSkipVerify :: bool

datatype ClientOption =
    WithCredentials ProxmoxCredentials
  | WithAPIToken string string
  | WithHTTPClient HTTPClient

text \<open>A client as \<open>proxmox.NewClient\<close> is asked to build it: base URL and options.\<close>

record Client =
  baseURL :: string
  clientOptions :: "ClientOption list"

definition NewClient :: "string \<Rightarrow> ClientOption list \<Rightarrow> Client" where
  "NewClient u opts = \<lparr>baseURL = u, clientOptions = opts\<rparr>"

text \<open>The functions of \<open>net/url\<close> that the factory calls, over the library's URL type.\<close>

record 'u URLLib =
  url_Parse :: "string \<Rightarrow> error + 'u"
  url_JoinPath :: "'u \<Rightarrow> string \<Rightarrow> 'u"
  url_String :: "'u \<Rightarrow> string"

definition getProxmoxClient ::
  "'u URLLib \<Rightarrow> FileSystem \<Rightarrow> Settings \<Rightarrow> nat list \<Rightarrow> (error + Client) \<times> nat list" where
  "getProxmoxClient lib fs st fds =
     (case url_Parse lib (URL st) of
        Inl err \<Rightarrow>
          (Inl (Errorf_w (''failed to parse URL='' @ sq (URL st) @ '': '') err), fds)
      | Inr url \<Rightarrow>
          (case getProxmoxCredentials fs st fds of
             (Inl err, fds1) \<Rightarrow> (Inl err, fds1)
           | (Inr credentials, fds1) \<Rightarrow>
               (let httpClient = \<lparr>tls_InsecureSkipVerify = InsecureSkipTLSVerify st\<rparr>
                in if TokenID credentials = []
                   then
                     (let proxmoxCredentials =
                            zeroProxmoxCredentials
                              \<lparr>pve_Username := Username credentials,
                               pve_Password := Password credentials,
                               pve_Path := Path credentials,
                               pve_Privs := Privs credentials,
                               pve_Realm := Realm credentials\<rparr>
                      in (Inr (NewClient (url_String lib (url_JoinPath lib url ''/api2/json''))
                                 [WithCredentials proxmoxCredentials,
                                  WithHTTPClient httpClient]), fds1))
                   else
                     (let apiToken = Username credentials @ ''@'' @ Realm credentials
                                       @ ''!'' @ TokenID credentials
                      in (Inr (NewClient (url_String lib (url_JoinPath lib url ''/api2/json''))
                                 [WithAPIToken apiToken (Password credentials),
                                  WithHTTPClient httpClient]), fds1)))))"

section \<open>Session ticket refresher\<close>

datatype LogLevel = LevelInfo | LevelError

record LogEntry =
  level :: LogLevel
  message :: string
  attrs :: "(string \<times> error) list"

definition logError :: "string \<Rightarrow> error \<Rightarrow> LogEntry" where
  "logError msg err = \<lparr>level = LevelError, message = msg, attrs = [(''err'', err)]\<rparr>"

definition logInfo :: "string \<Rightarrow> LogEntry" where
  "logInfo msg = \<lparr>level = LevelInfo, message = msg, attrs = []\<rparr>"

text \<open>
  Modelled from the spec: the declaration of \<open>InstanceGroup\<close> is not among the source
  files. Of the group the refresher touches the logger (\<open>ig.log\<close>), the cluster client
  (\<open>ig.proxmox\<close>) and the completion tracker (\<open>ig.sessionTicketRefresherWaitGroup\<close>).
  The state below is what a refresh cycle changes: the open file handles, the log, the
  arguments of the \<open>Ticket\<close> calls made so far (\<open>None\<close> is the nil pointer) and the
  counter of the wait group.
\<close>

record RefresherState =
  openFds :: "nat list"
  logged :: "LogEntry list"
  ticketCalls :: "ProxmoxCredentials option list"
  waitGroup :: nat

text \<open>
  What a cycle finds when the interval has elapsed: the file system of that moment and
  the answer of the cluster to the \<open>Ticket\<close> call (\<open>None\<close> is success; an error includes
  the call being cut off by its five-second deadline).
\<close>

record CycleEnv =
  env_fs :: FileSystem
  env_Ticket :: "ProxmoxCredentials option \<Rightarrow> error option"

text \<open>
  The body of the timer case in \<open>proxmox_session.go\<close>. The source passes
  \<open>*proxmoxCredentials\<close>; the model passes the record.
\<close>

definition refreshCycle :: "Settings \<Rightarrow> CycleEnv \<Rightarrow> RefresherState \<Rightarrow> RefresherState" where
  "refreshCycle st env s =
     (case getProxmoxCredentials (env_fs env) st (openFds s) of
        (Inl err, fds1) \<Rightarrow>
          s\<lparr>openFds := fds1,
            logged := logged s
              @ [logError ''failed to refresh proxmox session, could not read credentials'' err]\<rparr>
      | (Inr credentials, fds1) \<Rightarrow>
          (let proxmoxCredentials = zeroProxmoxCredentials\<lparr>pve_Username := Username credentials\<rparr>;
               s1 = s\<lparr>openFds := fds1,
                      ticketCalls := ticketCalls s @ [Some proxmoxCredentials]\<rparr>;
               s2 = (case env_Ticket env (Some proxmoxCredentials) of
                       Some err \<Rightarrow>
                         s1\<lparr>logged := logged s1
                              @ [logError ''failed to refresh proxmox session'' err]\<rparr>
                     | None \<Rightarrow> s1)
           in s2\<lparr>logged := logged s2 @ [logInfo ''refreshed proxmox session'']\<rparr>))"

text \<open>The body of the timer case in the other copy of the file, \<open>part_000\<close>.\<close>

definition refreshCycle_part000 :: "CycleEnv \<Rightarrow> RefresherState \<Rightarrow> RefresherState" where
  "refreshCycle_part000 env s =
     (let s1 = s\<lparr>ticketCalls := ticketCalls s @ [None]\<rparr>;
          s2 = (case env_Ticket env None of
                  Some err \<Rightarrow>
                    s1\<lparr>logged := logged s1
                         @ [logError ''failed to refresh proxmox session'' err]\<rparr>
                | None \<Rightarrow> s1)
      in s2\<lparr>logged := logged s2 @ [logInfo ''refreshed proxmox session'']\<rparr>)"

text \<open>
  The \<open>select\<close> of the loop takes one of two cases each time round. The list is the
  sequence of cases taken, as the environment decides it; the loop returns on the
  shutdown case and is still blocked in \<open>select\<close> when the list is used up.
\<close>

datatype SelectCase = ShutdownTrigger | IntervalElapsed CycleEnv

datatype 's Outcome = Returned 's | Blocked 's | Panicked

fun runSessionTicketRefresher ::
  "Settings \<Rightarrow> SelectCase list \<Rightarrow> RefresherState \<Rightarrow> RefresherState Outcome" where
  "runSessionTicketRefresher st [] s = Blocked s"
| "runSessionTicketRefresher st (ShutdownTrigger # rest) s = Returned s"
| "runSessionTicketRefresher st (IntervalElapsed env # rest) s =
     runSessionTicketRefresher st rest (refreshCycle st env s)"

fun runSessionTicketRefresher_part000 ::
  "SelectCase list \<Rightarrow> RefresherState \<Rightarrow> RefresherState Outcome" where
  "runSessionTicketRefresher_part000 [] s = Blocked s"
| "runSessionTicketRefresher_part000 (ShutdownTrigger # rest) s = Returned s"
| "runSessionTicketRefresher_part000 (IntervalElapsed env # rest) s =
     runSessionTicketRefresher_part000 rest (refreshCycle_part000 env s)"

text \<open>
  \<open>sync.WaitGroup\<close>: \<open>Add\<close> panics when the counter would become negative, \<open>Done\<close> is
  \<open>Add(-1)\<close>, and \<open>Wait\<close> returns when the counter is zero.
\<close>

definition wg_Add :: "int \<Rightarrow> nat \<Rightarrow> nat option" where
  "wg_Add delta n = (if int n + delta < 0 then None else Some (nat (int n + delta)))"

definition wg_Done :: "nat \<Rightarrow> nat option" where
  "wg_Done n = wg_Add (- 1) n"

definition wg_WaitReturns :: "nat \<Rightarrow> bool" where
  "wg_WaitReturns n = (n = 0)"

text \<open>
  The function literal that \<open>startSessionTicketRefresher\<close> runs as a goroutine: the loop,
  then the deferred \<open>Done\<close>.
\<close>

definition refresherTask ::
  "Settings \<Rightarrow> SelectCase list \<Rightarrow> RefresherState \<Rightarrow> RefresherState Outcome" where
  "refresherTask st cases s =
     (case runSessionTicketRefresher st cases s of
        Returned s' \<Rightarrow>
          (case wg_Done (waitGroup s') of
             None \<Rightarrow> Panicked
           | Some n \<Rightarrow> Returned (s'\<lparr>waitGroup := n\<rparr>))
      | Blocked s' \<Rightarrow> Blocked s'
      | Panicked \<Rightarrow> Panicked)"

text \<open>
  \<open>startSessionTicketRefresher\<close> followed by the task it starts, up to the point where
  the task has gone through the given \<open>select\<close> cases.
\<close>

definition startSessionTicketRefresher ::
  "Settings \<Rightarrow> SelectCase list \<Rightarrow> RefresherState \<Rightarrow> RefresherState Outcome" where
  "startSessionTicketRefresher st cases s =
     (case wg_Add 1 (waitGroup s) of
        None \<Rightarrow> Panicked
      | Some n \<Rightarrow> refresherTask st cases (s\<lparr>waitGroup := n\<rparr>))"

section \<open>Predicates and concrete inputs used in the statements\<close>

text \<open>A member value that the decoder can store into a string field: a string or \<open>null\<close>.\<close>

definition storable :: "json \<Rightarrow> bool" where
  "storable v = (case v of JString s \<Rightarrow> True | JNull \<Rightarrow> True | _ \<Rightarrow> False)"

definition st0 :: Settings where
  "st0 = \<lparr>URL = ''https://pve.example:8006'', Pool = ''runners'',
          CredentialsFilePath = ''/etc/fleeting/credentials.json'',
          InsecureSkipTLSVerify = True\<rparr>"

text \<open>A pool of three members: only the second and third are instances.\<close>

definition pool0 :: ProxmoxPool where
  "pool0 = \<lparr>Members = [\<lparr>Type = ''storage'', VMID = 105, Node = ''pve1''\<rparr>,
                        \<lparr>Type = ''qemu'', VMID = 105, Node = ''pve2''\<rparr>,
                        \<lparr>Type = ''qemu'', VMID = 106, Node = ''pve3''\<rparr>]\<rparr>"

definition api0 :: "(string, string \<times> go_int) ClusterAPI" where
  "api0 = \<lparr>api_Pool = (\<lambda>name. if name = ''runners'' then Inr pool0
                               else Inl (errorString ''pool does not exist'')),
           api_Node = (\<lambda>n. Inr n),
           api_VirtualMachine = (\<lambda>n v. Inr (n, v))\<rparr>"

text \<open>A pool with a member whose identifier is \<open>2 ^ 64 - 5\<close>.\<close>

definition poolWrapped :: ProxmoxPool where
  "poolWrapped = \<lparr>Members = [\<lparr>Type = ''qemu'', VMID = 18446744073709551611, Node = ''pve9''\<rparr>]\<rparr>"

definition apiWrapped :: "(string, string \<times> go_int) ClusterAPI" where
  "apiWrapped = \<lparr>api_Pool = (\<lambda>name. Inr poolWrapped),
                 api_Node = (\<lambda>n. Inr n),
                 api_VirtualMachine = (\<lambda>n v. Inr (n, v))\<rparr>"

definition fsOf :: "FileContent \<Rightarrow> FileSystem" where
  "fsOf c = (\<lambda>name. if name = ''/etc/fleeting/credentials.json'' then Inr c
                     else Inl (errorString ''no such file or directory''))"

definition fsMissing :: FileSystem where
  "fsMissing = (\<lambda>name. Inl (errorString ''no such file or directory''))"

definition jsonNoUsername :: json where
  "jsonNoUsername = JObject [(''password'', JString ''secret'')]"

definition jsonNoPassword :: json where
  "jsonNoPassword = JObject [(''username'', JString ''root'')]"

definition jsonPasswordMode :: json where
  "jsonPasswordMode =
     JObject [(''username'', JString ''root''), (''password'', JString ''secret''),
              (''realm'', JString ''pam''), (''comment'', JNumber ''1'')]"

definition jsonTokenMode :: json where
  "jsonTokenMode =
     JObject [(''Username'', JString ''ci''), (''password'', JString ''s3cr3t''),
              (''token'', JString ''runner''), (''realm'', JString ''pve'')]"

definition urlLib0 :: "string URLLib" where
  "urlLib0 = \<lparr>url_Parse = (\<lambda>s. if s = [] then Inl (errorString ''empty url'') else Inr s),
               url_JoinPath = (\<lambda>u p. u @ p),
               url_String = (\<lambda>u. u)\<rparr>"

definition s0 :: RefresherState where
  "s0 = \<lparr>openFds = [], logged = [], ticketCalls = [], waitGroup = 0\<rparr>"

definition envNoFile :: CycleEnv where
  "envNoFile = \<lparr>env_fs = fsMissing, env_Ticket = (\<lambda>a. None)\<rparr>"

definition envRenewFails :: CycleEnv where
  "envRenewFails =
     \<lparr>env_fs = fsOf (Inr jsonPasswordMode),
      env_Ticket = (\<lambda>a. Some (errorString ''401 authentication failure''))\<rparr>"

definition envRenewOk :: CycleEnv where
  "envRenewOk = \<lparr>env_fs = fsOf (Inr jsonPasswordMode), env_Ticket = (\<lambda>a. None)\<rparr>"

section \<open>Lemmas about the resolver\<close>

lemma scanMembers_find:
  "scanMembers api vmid ms =
     (case find (\<lambda>m. Type m = ''qemu'' \<and> VMID m = uint64_of_int vmid) ms of
        None \<Rightarrow> Inl ErrNotFound
      | Some m \<Rightarrow> getProxmoxVMOnNode api vmid (Node m))"
  by (induction ms) auto

lemma uint_uint64_of_int: "uint (uint64_of_int v) = sint v mod 2 ^ 64"
  by (simp add: uint64_of_int_def uint_sint take_bit_eq_mod)

lemma uint_uint64_of_int_negative:
  assumes "sint v < 0"
  shows "uint (uint64_of_int v) = 2 ^ 64 + sint v"
proof -
  have lo: "- (2 ^ 63) \<le> sint v"
    using sint_ge [of v] by simp
  have "sint v mod 2 ^ 64 = (sint v + 2 ^ 64) mod 2 ^ 64"
    by simp
  also have "\<dots> = sint v + 2 ^ 64"
    using lo assms by (intro mod_pos_pos_trivial) auto
  finally show ?thesis
    by (simp add: uint_uint64_of_int)
qed

lemma uint64_match_negative:
  assumes "sint v < 0"
  shows "(w = uint64_of_int v) = (uint w = 2 ^ 64 + sint v)"
  using uint_uint64_of_int_negative [OF assms] by (metis word_uint_eq_iff)

section \<open>Lemmas about files and decoding\<close>

lemma freshFd_notin: "freshFd fds \<notin> set fds"
proof -
  have "x \<in> set fds \<Longrightarrow> x \<le> foldr max fds 0" for x
    by (induction fds) auto
  then show ?thesis
    unfolding freshFd_def by fastforce
qed

lemma open_close_restores:
  "file_Close \<lparr>fd = freshFd fds, content = c\<rparr> (freshFd fds # fds) = fds"
  using freshFd_notin [of fds] by (simp add: file_Close_def)

lemma getProxmoxCredentials_handles: "snd (getProxmoxCredentials fs st fds) = fds"
  by (simp add: getProxmoxCredentials_def os_Open_def open_close_restores split: sum.splits)

lemma getProxmoxCredentials_open_failure:
  "fs (CredentialsFilePath st) = Inl err \<Longrightarrow>
   fst (getProxmoxCredentials fs st fds) =
     Inl (wrapError (''failed to open credentials file from path='' @ sq (CredentialsFilePath st)
                      @ '': '' @ Error err) err)"
  by (simp add: getProxmoxCredentials_def os_Open_def Errorf_w_def)

lemma getProxmoxCredentials_opened:
  "fs (CredentialsFilePath st) = Inr c \<Longrightarrow>
   fst (getProxmoxCredentials fs st fds) =
     (case Decode \<lparr>fd = freshFd fds, content = c\<rparr> emptyCredentials of
        Inl err \<Rightarrow>
          Inl (wrapError (''failed to decode credentials file from path=''
                           @ sq (CredentialsFilePath st) @ '': '' @ Error err) err)
      | Inr credentials \<Rightarrow> Inr credentials)"
  by (simp add: getProxmoxCredentials_def os_Open_def Errorf_w_def split: sum.splits)

lemma getField_setField:
  "getField f (setField g v c) = (if f = g then v else getField f c)"
  by (cases f; cases g) simp_all

lemma getField_empty: "getField f emptyCredentials = []"
  by (cases f) (simp_all add: emptyCredentials_def)

lemma decodeMember_other_field:
  "lookupField (fst kv) \<noteq> Some f \<Longrightarrow>
   getField f (snd (decodeMember kv acc)) = getField f (snd acc)"
  by (auto simp: decodeMember_def getField_setField split: option.splits json.splits)

lemma decodeMembers_other_field:
  "\<forall>kv \<in> set kvs. lookupField (fst kv) \<noteq> Some f \<Longrightarrow>
   getField f (snd (decodeMembers kvs acc)) = getField f (snd acc)"
  by (induction kvs arbitrary: acc) (simp_all add: decodeMember_other_field)

lemma decodeMember_no_error:
  "lookupField (fst kv) \<noteq> None \<longrightarrow> storable (snd kv) \<Longrightarrow>
   fst (decodeMember kv acc) = fst acc"
  by (auto simp: decodeMember_def storable_def split: option.splits json.splits)

lemma decodeMembers_no_error:
  "\<forall>kv \<in> set kvs. lookupField (fst kv) \<noteq> None \<longrightarrow> storable (snd kv) \<Longrightarrow>
   fst (decodeMembers kvs acc) = fst acc"
  by (induction kvs arbitrary: acc) (simp_all add: decodeMember_no_error)

lemma lookupField_examples:
  "lookupField ''password'' = Some fPassword"
  "lookupField ''username'' = Some fUsername"
  "lookupField ''Username'' = Some fUsername"
  "lookupField ''token'' = Some fTokenID"
  "lookupField ''realm'' = Some fRealm"
  "lookupField ''comment'' = None"
  by code_simp+

lemma credentials_token_file:
  "fst (getProxmoxCredentials (fsOf (Inr jsonTokenMode)) st0 fds) =
     Inr \<lparr>Username = ''ci'', Password = ''s3cr3t'', TokenID = ''runner'', OtpSecret = [],
          Path = [], Privs = [], Realm = ''pve''\<rparr>"
  by (simp add: getProxmoxCredentials_def os_Open_def fsOf_def st0_def Decode_def
      unmarshalCredentials_def jsonTokenMode_def decodeMember_def lookupField_examples
      emptyCredentials_def)

lemma credentials_password_file:
  "fst (getProxmoxCredentials (fsOf (Inr jsonPasswordMode)) st0 fds) =
     Inr \<lparr>Username = ''root'', Password = ''secret'', TokenID = [], OtpSecret = [],
          Path = [], Privs = [], Realm = ''pam''\<rparr>"
  by (simp add: getProxmoxCredentials_def os_Open_def fsOf_def st0_def Decode_def
      unmarshalCredentials_def jsonPasswordMode_def decodeMember_def lookupField_examples
      emptyCredentials_def)

section \<open>Lemmas about the refresher loop\<close>

lemma refreshCycle_waitGroup: "waitGroup (refreshCycle st env s) = waitGroup s"
  by (simp add: refreshCycle_def Let_def split: prod.splits sum.splits option.splits)

lemma run_waitGroup:
  "runSessionTicketRefresher st cases s = Returned s'
     \<or> runSessionTicketRefresher st cases s = Blocked s'
   \<Longrightarrow> waitGroup s' = waitGroup s"
  by (induction st cases s rule: runSessionTicketRefresher.induct)
     (auto simp: refreshCycle_waitGroup)

lemma run_never_panics: "runSessionTicketRefresher st cases s \<noteq> Panicked"
  by (induction st cases s rule: runSessionTicketRefresher.induct) auto

lemma run_append_shutdown:
  "runSessionTicketRefresher st pre s = Blocked s1 \<Longrightarrow>
   runSessionTicketRefresher st (pre @ ShutdownTrigger # post) s = Returned s1"
  by (induction st pre s rule: runSessionTicketRefresher.induct) auto

lemma run_returns_iff:
  "(\<exists>s'. runSessionTicketRefresher st cases s = Returned s') \<longleftrightarrow> ShutdownTrigger \<in> set cases"
  by (induction st cases s rule: runSessionTicketRefresher.induct) auto

lemma run_blocked_iff:
  "(\<exists>s'. runSessionTicketRefresher st cases s = Blocked s') \<longleftrightarrow> ShutdownTrigger \<notin> set cases"
  by (induction st cases s rule: runSessionTicketRefresher.induct) auto

lemma wg_Add_one: "wg_Add 1 n = Some (Suc n)"
  by (simp add: wg_Add_def nat_add_distrib)

lemma wg_Done_Suc: "wg_Done (Suc n) = Some n"
  by (simp add: wg_Done_def wg_Add_def)

lemma start_unfold:
  "startSessionTicketRefresher st cases s =
     (case runSessionTicketRefresher st cases (s\<lparr>waitGroup := Suc (waitGroup s)\<rparr>) of
        Returned s' \<Rightarrow> Returned (s'\<lparr>waitGroup := waitGroup s\<rparr>)
      | Blocked s' \<Rightarrow> Blocked s'
      | Panicked \<Rightarrow> Panicked)"
proof (cases "runSessionTicketRefresher st cases (s\<lparr>waitGroup := Suc (waitGroup s)\<rparr>)")
  case (Returned s')
  then have "waitGroup s' = Suc (waitGroup s)"
    using run_waitGroup by fastforce
  then show ?thesis
    using Returned
    by (simp add: startSessionTicketRefresher_def refresherTask_def wg_Add_one wg_Done_Suc)
next
  case (Blocked s')
  then show ?thesis
    by (simp add: startSessionTicketRefresher_def refresherTask_def wg_Add_one)
next
  case Panicked
  then show ?thesis
    using run_never_panics by blast
qed

text \<open>
  What each copy of the cycle hands to the \<open>Ticket\<close> call: a login record that holds
  the username and nothing else, and the nil pointer.
\<close>

lemma refreshCycle_ticket_argument:
  assumes "fst (getProxmoxCredentials (env_fs env) st (openFds s)) = Inr c"
  shows "ticketCalls (refreshCycle st env s) =
           ticketCalls s
             @ [Some \<lparr>pve_Username = Username c, pve_Password = [], pve_Otp = [],
                      pve_Path = [], pve_Privs = [], pve_Realm = []\<rparr>]"
  using assms
  by (cases "getProxmoxCredentials (env_fs env) st (openFds s)")
     (simp add: refreshCycle_def Let_def zeroProxmoxCredentials_def split: option.splits)

lemma refreshCycle_part000_ticket_argument:
  "ticketCalls (refreshCycle_part000 env s) = ticketCalls s @ [None]"
  by (simp add: refreshCycle_part000_def Let_def split: option.splits)

section \<open>Instance resolver: claims\<close>

text \<open>
  C1. When the pool is fetched, \<open>getProxmoxVM\<close> scans the members in the order given and,
  for the first member whose type is \<open>qemu\<close> and whose identifier equals the requested
  one, returns what \<open>getProxmoxVMOnNode\<close> returns for the requested identifier and that
  member's node; when no member of type \<open>qemu\<close> has that identifier it returns
  \<open>ErrNotFound\<close>. A member of another type is never selected, whatever its identifier.
\<close>

theorem getProxmoxVM_first_match:
  assumes "api_Pool api (Pool st) = Inr pool"
  shows "getProxmoxVM st api vmid =
           (case find (\<lambda>m. Type m = ''qemu'' \<and> VMID m = uint64_of_int vmid) (Members pool) of
              None \<Rightarrow> Inl ErrNotFound
            | Some m \<Rightarrow> getProxmoxVMOnNode api vmid (Node m))"
  using assms by (simp add: getProxmoxVM_def getProxmoxPool_def scanMembers_find)

text \<open>
  The pool of three members: identifier 105 resolves on node \<open>pve2\<close>, although the
  member before it, of type \<open>storage\<close>, carries the same identifier; identifier 999 is
  not found.
\<close>

theorem getProxmoxVM_first_match_witness:
  "api_Pool api0 (Pool st0) = Inr pool0
   \<and> getProxmoxVM st0 api0 105 = Inr (''pve2'', 105)
   \<and> getProxmoxVM st0 api0 999 = Inl ErrNotFound"
  using getProxmoxVM_first_match [of api0 st0 pool0 105]
        getProxmoxVM_first_match [of api0 st0 pool0 999]
  by (simp add: api0_def st0_def pool0_def getProxmoxVMOnNode_def uint64_of_int_def)

text \<open>
  C10. The requested identifier is signed and is compared after conversion to
  \<open>uint64\<close>, which wraps modulo \<open>2 ^ 64\<close>: for a negative identifier a member matches
  exactly when its identifier is \<open>2 ^ 64\<close> plus the requested one, so when every member
  identifier is below \<open>2 ^ 63\<close> the result is \<open>ErrNotFound\<close>, not a match and not another
  error.
\<close>

theorem getProxmoxVM_negative_vmid:
  assumes "sint vmid < 0" and "api_Pool api (Pool st) = Inr pool"
  shows "getProxmoxVM st api vmid =
           (case find (\<lambda>m. Type m = ''qemu'' \<and> uint (VMID m) = 2 ^ 64 + sint vmid)
                   (Members pool) of
              None \<Rightarrow> Inl ErrNotFound
            | Some m \<Rightarrow> getProxmoxVMOnNode api vmid (Node m))
         \<and> ((\<forall>m \<in> set (Members pool). uint (VMID m) < 2 ^ 63) \<longrightarrow>
              getProxmoxVM st api vmid = Inl ErrNotFound)"
proof -
  have eq: "(\<lambda>m. Type m = ''qemu'' \<and> VMID m = uint64_of_int vmid)
          = (\<lambda>m. Type m = ''qemu'' \<and> uint (VMID m) = 2 ^ 64 + sint vmid)"
    using uint64_match_negative [OF assms(1)] by auto
  have run: "getProxmoxVM st api vmid = scanMembers api vmid (Members pool)"
    using assms(2) by (simp add: getProxmoxVM_def getProxmoxPool_def)
  have first: "getProxmoxVM st api vmid =
           (case find (\<lambda>m. Type m = ''qemu'' \<and> uint (VMID m) = 2 ^ 64 + sint vmid)
                   (Members pool) of
              None \<Rightarrow> Inl ErrNotFound
            | Some m \<Rightarrow> getProxmoxVMOnNode api vmid (Node m))"
    unfolding run scanMembers_find eq ..
  have "getProxmoxVM st api vmid = Inl ErrNotFound"
    if small: "\<forall>m \<in> set (Members pool). uint (VMID m) < 2 ^ 63"
  proof -
    have "- (2 ^ 63) \<le> sint vmid"
      using sint_ge [of vmid] by simp
    then have "\<forall>m \<in> set (Members pool). uint (VMID m) \<noteq> 2 ^ 64 + sint vmid"
      using small by fastforce
    then have "find (\<lambda>m. Type m = ''qemu'' \<and> uint (VMID m) = 2 ^ 64 + sint vmid)
                 (Members pool) = None"
      by (simp add: find_None_iff)
    then show ?thesis
      using first by simp
  qed
  then show ?thesis
    using first by blast
qed

text \<open>
  Identifier \<open>-5\<close>: not found in the pool of three members, and matched by the member
  whose identifier is \<open>2 ^ 64 - 5\<close>.
\<close>

theorem getProxmoxVM_negative_vmid_witness:
  "sint (- 5 :: go_int) < 0 \<and> api_Pool api0 (Pool st0) = Inr pool0
   \<and> getProxmoxVM st0 api0 (- 5) = Inl ErrNotFound
   \<and> getProxmoxVM st0 apiWrapped (- 5) = Inr (''pve9'', - 5)"
proof -
  have neg: "sint (- 5 :: go_int) < 0"
    by simp
  have p0: "api_Pool api0 (Pool st0) = Inr pool0"
    by (simp add: api0_def st0_def)
  have pw: "api_Pool apiWrapped (Pool st0) = Inr poolWrapped"
    by (simp add: apiWrapped_def)
  have small: "\<forall>m \<in> set (Members pool0). uint (VMID m) < 2 ^ 63"
    by (simp add: pool0_def)
  have a: "getProxmoxVM st0 api0 (- 5) = Inl ErrNotFound"
    using getProxmoxVM_negative_vmid [OF neg p0] small by blast
  have b: "getProxmoxVM st0 apiWrapped (- 5) = Inr (''pve9'', - 5)"
    using getProxmoxVM_negative_vmid [OF neg pw]
    by (simp add: poolWrapped_def apiWrapped_def getProxmoxVMOnNode_def)
  show ?thesis
    using neg p0 a b by blast
qed

section \<open>Cluster client factory: claims\<close>

text \<open>
  C2. When the URL parses and the credential record that is read has a non-empty token
  identifier, \<open>getProxmoxClient\<close> builds a client with the API token
  \<open>Username @ Realm ! TokenID\<close> and the record's password as its secret, and with no
  login credentials.
\<close>

theorem getProxmoxClient_token_mode:
  assumes "url_Parse lib (URL st) = Inr u"
    and "fst (getProxmoxCredentials fs st fds) = Inr c"
    and "TokenID c \<noteq> []"
  shows "\<exists>client. fst (getProxmoxClient lib fs st fds) = Inr client
           \<and> clientOptions client =
               [WithAPIToken (Username c @ ''@'' @ Realm c @ ''!'' @ TokenID c) (Password c),
                WithHTTPClient \<lparr>tls_InsecureSkipVerify = InsecureSkipTLSVerify st\<rparr>]
           \<and> (\<forall>pc. WithCredentials pc \<notin> set (clientOptions client))
           \<and> baseURL client = url_String lib (url_JoinPath lib u ''/api2/json'')"
  using assms
  by (cases "getProxmoxCredentials fs st fds")
     (simp add: getProxmoxClient_def NewClient_def Let_def)

theorem getProxmoxClient_token_mode_witness:
  "url_Parse urlLib0 (URL st0) = Inr ''https://pve.example:8006''
   \<and> fst (getProxmoxCredentials (fsOf (Inr jsonTokenMode)) st0 []) =
       Inr \<lparr>Username = ''ci'', Password = ''s3cr3t'', TokenID = ''runner'', OtpSecret = [],
            Path = [], Privs = [], Realm = ''pve''\<rparr>
   \<and> (\<exists>client. fst (getProxmoxClient urlLib0 (fsOf (Inr jsonTokenMode)) st0 []) = Inr client
         \<and> clientOptions client =
             [WithAPIToken ''ci@pve!runner'' ''s3cr3t'',
              WithHTTPClient \<lparr>tls_InsecureSkipVerify = True\<rparr>]
         \<and> baseURL client = ''https://pve.example:8006/api2/json'')"
proof -
  have u: "url_Parse urlLib0 (URL st0) = Inr ''https://pve.example:8006''"
    by (simp add: urlLib0_def st0_def)
  have t: "TokenID \<lparr>Username = ''ci'', Password = ''s3cr3t'', TokenID = ''runner'',
                    OtpSecret = [], Path = [], Privs = [], Realm = ''pve''\<rparr> \<noteq> []"
    by simp
  show ?thesis
    using u credentials_token_file [of "[]"]
      getProxmoxClient_token_mode [OF u credentials_token_file t, of "[]"]
    by (auto simp: urlLib0_def st0_def)
qed

text \<open>
  C3. When the URL parses and the credential record that is read has an empty token
  identifier, \<open>getProxmoxClient\<close> builds a client whose login credentials hold the
  record's username, password, path, privs and realm, and with no API token.
\<close>

theorem getProxmoxClient_password_mode:
  assumes "url_Parse lib (URL st) = Inr u"
    and "fst (getProxmoxCredentials fs st fds) = Inr c"
    and "TokenID c = []"
  shows "\<exists>client. fst (getProxmoxClient lib fs st fds) = Inr client
           \<and> clientOptions client =
               [WithCredentials \<lparr>pve_Username = Username c, pve_Password = Password c,
                                 pve_Otp = [], pve_Path = Path c, pve_Privs = Privs c,
                                 pve_Realm = Realm c\<rparr>,
                WithHTTPClient \<lparr>tls_InsecureSkipVerify = InsecureSkipTLSVerify st\<rparr>]
           \<and> (\<forall>tok secret. WithAPIToken tok secret \<notin> set (clientOptions client))
           \<and> baseURL client = url_String lib (url_JoinPath lib u ''/api2/json'')"
  using assms
  by (cases "getProxmoxCredentials fs st fds")
     (simp add: getProxmoxClient_def NewClient_def Let_def zeroProxmoxCredentials_def)

theorem getProxmoxClient_password_mode_witness:
  "url_Parse urlLib0 (URL st0) = Inr ''https://pve.example:8006''
   \<and> fst (getProxmoxCredentials (fsOf (Inr jsonPasswordMode)) st0 []) =
       Inr \<lparr>Username = ''root'', Password = ''secret'', TokenID = [], OtpSecret = [],
            Path = [], Privs = [], Realm = ''pam''\<rparr>
   \<and> (\<exists>client. fst (getProxmoxClient urlLib0 (fsOf (Inr jsonPasswordMode)) st0 []) = Inr client
         \<and> clientOptions client =
             [WithCredentials \<lparr>pve_Username = ''root'', pve_Password = ''secret'',
                               pve_Otp = [], pve_Path = [], pve_Privs = [],
                               pve_Realm = ''pam''\<rparr>,
              WithHTTPClient \<lparr>tls_InsecureSkipVerify = True\<rparr>]
         \<and> baseURL client = ''https://pve.example:8006/api2/json'')"
proof -
  have u: "url_Parse urlLib0 (URL st0) = Inr ''https://pve.example:8006''"
    by (simp add: urlLib0_def st0_def)
  have t: "TokenID \<lparr>Username = ''root'', Password = ''secret'', TokenID = [],
                    OtpSecret = [], Path = [], Privs = [], Realm = ''pam''\<rparr> = []"
    by simp
  show ?thesis
    using u credentials_password_file [of "[]"]
      getProxmoxClient_password_mode [OF u credentials_password_file t, of "[]"]
    by (auto simp: urlLib0_def st0_def)
qed

section \<open>Credential store reader: claims\<close>

text \<open>
  C4. \<open>getProxmoxCredentials\<close> returns an error exactly when the file cannot be opened
  or its content does not decode. When the open fails, the error wraps the error of the
  open and its message holds the configured path; when the decoding fails, the error
  wraps the decoding error and its message holds the path. On every return the process
  holds the same open handles as before the call: the handle of the opened file has
  been closed.
\<close>

theorem getProxmoxCredentials_errors:
  "(isl (fst (getProxmoxCredentials fs st fds)) \<longleftrightarrow>
      (case fs (CredentialsFilePath st) of
         Inl err \<Rightarrow> True
       | Inr c \<Rightarrow> isl (Decode \<lparr>fd = freshFd fds, content = c\<rparr> emptyCredentials)))
   \<and> (\<forall>err. fs (CredentialsFilePath st) = Inl err \<longrightarrow>
          (\<exists>e. fst (getProxmoxCredentials fs st fds) = Inl e \<and> Unwrap e = Some err
             \<and> Error e = ''failed to open credentials file from path=''
                            @ sq (CredentialsFilePath st) @ '': '' @ Error err))
   \<and> (\<forall>c err. fs (CredentialsFilePath st) = Inr c
          \<and> Decode \<lparr>fd = freshFd fds, content = c\<rparr> emptyCredentials = Inl err \<longrightarrow>
          (\<exists>e. fst (getProxmoxCredentials fs st fds) = Inl e \<and> Unwrap e = Some err
             \<and> Error e = ''failed to decode credentials file from path=''
                            @ sq (CredentialsFilePath st) @ '': '' @ Error err))
   \<and> snd (getProxmoxCredentials fs st fds) = fds"
proof (intro conjI allI impI)
  show "isl (fst (getProxmoxCredentials fs st fds)) \<longleftrightarrow>
      (case fs (CredentialsFilePath st) of
         Inl err \<Rightarrow> True
       | Inr c \<Rightarrow> isl (Decode \<lparr>fd = freshFd fds, content = c\<rparr> emptyCredentials))"
    by (cases "fs (CredentialsFilePath st)")
       (simp_all add: getProxmoxCredentials_open_failure getProxmoxCredentials_opened
          split: sum.splits)
next
  fix err
  assume "fs (CredentialsFilePath st) = Inl err"
  then show "\<exists>e. fst (getProxmoxCredentials fs st fds) = Inl e \<and> Unwrap e = Some err
             \<and> Error e = ''failed to open credentials file from path=''
                            @ sq (CredentialsFilePath st) @ '': '' @ Error err"
    by (simp add: getProxmoxCredentials_open_failure)
next
  fix c err
  assume "fs (CredentialsFilePath st) = Inr c
          \<and> Decode \<lparr>fd = freshFd fds, content = c\<rparr> emptyCredentials = Inl err"
  then show "\<exists>e. fst (getProxmoxCredentials fs st fds) = Inl e \<and> Unwrap e = Some err
             \<and> Error e = ''failed to decode credentials file from path=''
                            @ sq (CredentialsFilePath st) @ '': '' @ Error err"
    by (simp add: getProxmoxCredentials_opened)
next
  show "snd (getProxmoxCredentials fs st fds) = fds"
    by (rule getProxmoxCredentials_handles)
qed

text \<open>
  A missing file, a file that is not JSON and a well-formed file, read while handle 3
  is open: two errors with the path in their message and one record, and handle 3 alone
  stays open each time.
\<close>

theorem getProxmoxCredentials_errors_witness:
  "fsMissing (CredentialsFilePath st0) = Inl (errorString ''no such file or directory'')
   \<and> (\<exists>e. fst (getProxmoxCredentials fsMissing st0 [3]) = Inl e
          \<and> Unwrap e = Some (errorString ''no such file or directory'')
          \<and> Error e = ''failed to open credentials file from path=''
                @ sq ''/etc/fleeting/credentials.json'' @ '': no such file or directory'')
   \<and> snd (getProxmoxCredentials fsMissing st0 [3]) = [3]
   \<and> fsOf (Inl (errorString ''unexpected EOF'')) (CredentialsFilePath st0)
        = Inr (Inl (errorString ''unexpected EOF''))
   \<and> Decode \<lparr>fd = freshFd [3], content = Inl (errorString ''unexpected EOF'')\<rparr> emptyCredentials
        = Inl (errorString ''unexpected EOF'')
   \<and> (\<exists>e. fst (getProxmoxCredentials (fsOf (Inl (errorString ''unexpected EOF''))) st0 [3]) = Inl e
          \<and> Unwrap e = Some (errorString ''unexpected EOF'')
          \<and> Error e = ''failed to decode credentials file from path=''
                @ sq ''/etc/fleeting/credentials.json'' @ '': unexpected EOF'')
   \<and> snd (getProxmoxCredentials (fsOf (Inl (errorString ''unexpected EOF''))) st0 [3]) = [3]
   \<and> isl (fst (getProxmoxCredentials (fsOf (Inr jsonPasswordMode)) st0 [3])) = False
   \<and> snd (getProxmoxCredentials (fsOf (Inr jsonPasswordMode)) st0 [3]) = [3]"
proof -
  have m: "fsMissing (CredentialsFilePath st0) = Inl (errorString ''no such file or directory'')"
    by (simp add: fsMissing_def)
  have b: "fsOf (Inl (errorString ''unexpected EOF'')) (CredentialsFilePath st0)
             = Inr (Inl (errorString ''unexpected EOF''))"
    by (simp add: fsOf_def st0_def)
  have d: "Decode \<lparr>fd = freshFd [3], content = Inl (errorString ''unexpected EOF'')\<rparr>
             emptyCredentials = Inl (errorString ''unexpected EOF'')"
    by (simp add: Decode_def)
  have p: "st0\<lparr>CredentialsFilePath := CredentialsFilePath st0\<rparr> = st0"
    by simp
  have path: "CredentialsFilePath st0 = ''/etc/fleeting/credentials.json''"
    by (simp add: st0_def)
  note missing = getProxmoxCredentials_errors [of fsMissing st0 "[3]"]
  note bad = getProxmoxCredentials_errors [of "fsOf (Inl (errorString ''unexpected EOF''))" st0 "[3]"]
  note good = getProxmoxCredentials_errors [of "fsOf (Inr jsonPasswordMode)" st0 "[3]"]
  have 1: "\<exists>e. fst (getProxmoxCredentials fsMissing st0 [3]) = Inl e
          \<and> Unwrap e = Some (errorString ''no such file or directory'')
          \<and> Error e = ''failed to open credentials file from path=''
                @ sq ''/etc/fleeting/credentials.json'' @ '': no such file or directory''"
    using missing m path by simp
  have 2: "\<exists>e. fst (getProxmoxCredentials (fsOf (Inl (errorString ''unexpected EOF''))) st0 [3]) = Inl e
          \<and> Unwrap e = Some (errorString ''unexpected EOF'')
          \<and> Error e = ''failed to decode credentials file from path=''
                @ sq ''/etc/fleeting/credentials.json'' @ '': unexpected EOF''"
    using bad b d path by simp
  have 3: "isl (fst (getProxmoxCredentials (fsOf (Inr jsonPasswordMode)) st0 [3])) = False"
    by (simp add: credentials_password_file)
  show ?thesis
    using m b d 1 2 3 missing bad good by blast
qed

text \<open>
  C9, as the code has it. Loading a credential record does not enforce any field: when
  the file holds a JSON object in which every member that matches a field is a string or
  \<open>null\<close>, \<open>getProxmoxCredentials\<close> returns a record whichever fields are absent, the
  username and the password included, and every field that no member matches is empty
  in that record.
\<close>

theorem getProxmoxCredentials_absent_fields:
  assumes cfile: "fs (CredentialsFilePath st) = Inr (Inr (JObject kvs))"
    and ok: "\<forall>kv \<in> set kvs. lookupField (fst kv) \<noteq> None \<longrightarrow> storable (snd kv)"
  shows "\<exists>c. fst (getProxmoxCredentials fs st fds) = Inr c
           \<and> (\<forall>f. (\<forall>kv \<in> set kvs. lookupField (fst kv) \<noteq> Some f) \<longrightarrow> getField f c = [])"
proof -
  obtain e c where dec: "decodeMembers kvs (None, emptyCredentials) = (e, c)"
    by (cases "decodeMembers kvs (None, emptyCredentials)")
  have "e = None"
    using decodeMembers_no_error [OF ok, of "(None, emptyCredentials)"] dec by simp
  then have res: "fst (getProxmoxCredentials fs st fds) = Inr c"
    using cfile dec by (simp add: getProxmoxCredentials_opened Decode_def unmarshalCredentials_def)
  have "getField f c = []" if "\<forall>kv \<in> set kvs. lookupField (fst kv) \<noteq> Some f" for f
    using decodeMembers_other_field [OF that, of "(None, emptyCredentials)"] dec
    by (simp add: getField_empty)
  then show ?thesis
    using res by blast
qed

text \<open>A file with a password and no username gives a record with an empty username.\<close>

theorem getProxmoxCredentials_absent_fields_witness:
  "fsOf (Inr jsonNoUsername) (CredentialsFilePath st0)
     = Inr (Inr (JObject [(''password'', JString ''secret'')]))
   \<and> lookupField ''password'' = Some fPassword \<and> storable (JString ''secret'')
   \<and> (\<exists>c. fst (getProxmoxCredentials (fsOf (Inr jsonNoUsername)) st0 []) = Inr c
          \<and> Username c = [])"
proof -
  have cfile: "fsOf (Inr jsonNoUsername) (CredentialsFilePath st0)
                 = Inr (Inr (JObject [(''password'', JString ''secret'')]))"
    by (simp add: fsOf_def st0_def jsonNoUsername_def)
  have ok: "\<forall>kv \<in> set [(''password'', JString ''secret'')].
              lookupField (fst kv) \<noteq> None \<longrightarrow> storable (snd kv)"
    by (simp add: storable_def)
  have absent: "\<forall>kv \<in> set [(''password'', JString ''secret'')].
                  lookupField (fst kv) \<noteq> Some fUsername"
    by (simp add: lookupField_examples)
  obtain c where c: "fst (getProxmoxCredentials (fsOf (Inr jsonNoUsername)) st0 []) = Inr c"
    and every: "\<forall>f. (\<forall>kv \<in> set [(''password'', JString ''secret'')].
                       lookupField (fst kv) \<noteq> Some f) \<longrightarrow> getField f c = []"
    using getProxmoxCredentials_absent_fields
      [of "fsOf (Inr jsonNoUsername)" st0 "[(''password'', JString ''secret'')]" "[]",
       OF cfile ok]
    by blast
  from every absent have "getField fUsername c = []"
    by blast
  then have "Username c = []"
    by simp
  with cfile c show ?thesis
    by (simp add: lookupField_examples storable_def)
qed

text \<open>
  C9, as stated, fails: a file without the username and a file without the password are
  both read without error.
\<close>

theorem getProxmoxCredentials_required_fields_counterexample:
  "fst (getProxmoxCredentials (fsOf (Inr jsonNoUsername)) st0 []) =
     Inr \<lparr>Username = [], Password = ''secret'', TokenID = [], OtpSecret = [], Path = [],
          Privs = [], Realm = []\<rparr>
   \<and> fst (getProxmoxCredentials (fsOf (Inr jsonNoPassword)) st0 []) =
     Inr \<lparr>Username = ''root'', Password = [], TokenID = [], OtpSecret = [], Path = [],
          Privs = [], Realm = []\<rparr>"
  by (simp add: getProxmoxCredentials_def os_Open_def fsOf_def st0_def Decode_def
      unmarshalCredentials_def jsonNoUsername_def jsonNoPassword_def decodeMember_def
      lookupField_examples emptyCredentials_def)

section \<open>Session ticket refresher: claims\<close>

text \<open>
  C5. In a refresh cycle in which the credentials cannot be read, one error is logged
  and nothing else changes: no \<open>Ticket\<close> call is made, and the loop goes on to its
  next \<open>select\<close>, where it waits when no further case is given.
\<close>

theorem refreshCycle_credentials_failure:
  assumes "fst (getProxmoxCredentials (env_fs env) st (openFds s)) = Inl err"
  shows "refreshCycle st env s =
           s\<lparr>logged := logged s
               @ [logError ''failed to refresh proxmox session, could not read credentials'' err]\<rparr>
         \<and> ticketCalls (refreshCycle st env s) = ticketCalls s
         \<and> runSessionTicketRefresher st (IntervalElapsed env # rest) s
             = runSessionTicketRefresher st rest (refreshCycle st env s)
         \<and> runSessionTicketRefresher st [IntervalElapsed env] s = Blocked (refreshCycle st env s)"
proof -
  obtain r fds1 where g: "getProxmoxCredentials (env_fs env) st (openFds s) = (r, fds1)"
    by (cases "getProxmoxCredentials (env_fs env) st (openFds s)")
  have "fds1 = openFds s"
    using getProxmoxCredentials_handles [of "env_fs env" st "openFds s"] g by simp
  moreover have "r = Inl err"
    using assms g by simp
  ultimately have "refreshCycle st env s =
           s\<lparr>logged := logged s
               @ [logError ''failed to refresh proxmox session, could not read credentials'' err]\<rparr>"
    using g by (simp add: refreshCycle_def)
  then show ?thesis
    by simp
qed

text \<open>
  A cycle that finds no credentials file, followed by one that finds it: the first
  logs the error and makes no call, the second makes the call.
\<close>

theorem refreshCycle_credentials_failure_witness:
  "fst (getProxmoxCredentials (env_fs envNoFile) st0 (openFds s0)) =
     Inl (Errorf_w (''failed to open credentials file from path=''
                      @ sq ''/etc/fleeting/credentials.json'' @ '': '')
            (errorString ''no such file or directory''))
   \<and> logged (refreshCycle st0 envNoFile s0) =
       [logError ''failed to refresh proxmox session, could not read credentials''
          (Errorf_w (''failed to open credentials file from path=''
                       @ sq ''/etc/fleeting/credentials.json'' @ '': '')
             (errorString ''no such file or directory''))]
   \<and> ticketCalls (refreshCycle st0 envNoFile s0) = []
   \<and> (\<exists>s'. runSessionTicketRefresher st0 [IntervalElapsed envNoFile, IntervalElapsed envRenewOk] s0
               = Blocked s'
            \<and> ticketCalls s' = [Some (zeroProxmoxCredentials\<lparr>pve_Username := ''root''\<rparr>)])"
proof -
  have h: "fst (getProxmoxCredentials (env_fs envNoFile) st0 (openFds s0)) =
     Inl (Errorf_w (''failed to open credentials file from path=''
                      @ sq ''/etc/fleeting/credentials.json'' @ '': '')
            (errorString ''no such file or directory''))"
    by (simp add: getProxmoxCredentials_def os_Open_def envNoFile_def fsMissing_def st0_def)
  note c = refreshCycle_credentials_failure [OF h, of "[IntervalElapsed envRenewOk]"]
  have s1: "refreshCycle st0 envNoFile s0 =
     s0\<lparr>logged := [logError ''failed to refresh proxmox session, could not read credentials''
          (Errorf_w (''failed to open credentials file from path=''
                       @ sq ''/etc/fleeting/credentials.json'' @ '': '')
             (errorString ''no such file or directory''))]\<rparr>"
    using c by (simp add: s0_def)
  have g: "getProxmoxCredentials (fsOf (Inr jsonPasswordMode)) st0 [] =
             (Inr \<lparr>Username = ''root'', Password = ''secret'', TokenID = [], OtpSecret = [],
                   Path = [], Privs = [], Realm = ''pam''\<rparr>, [])"
    using credentials_password_file [of "[]"]
      getProxmoxCredentials_handles [of "fsOf (Inr jsonPasswordMode)" st0 "[]"]
    by (cases "getProxmoxCredentials (fsOf (Inr jsonPasswordMode)) st0 []") simp
  have "\<exists>s'. runSessionTicketRefresher st0 [IntervalElapsed envNoFile, IntervalElapsed envRenewOk] s0
               = Blocked s'
            \<and> ticketCalls s' = [Some (zeroProxmoxCredentials\<lparr>pve_Username := ''root''\<rparr>)]"
    using c g by (simp add: s1 refreshCycle_def envRenewOk_def s0_def Let_def)
  then show ?thesis
    using h s1 by (simp add: s0_def)
qed

text \<open>
  C6. The list of \<open>select\<close> cases is what the environment lets the loop take; the
  shutdown trigger fires where the list has \<open>ShutdownTrigger\<close>. From every state in
  which the task is blocked in \<open>select\<close>, the shutdown case makes it return with that
  state, whatever cases would follow: no further cycle runs, and the deferred \<open>Done\<close>
  takes the counter of the wait group back to its value before the start, so a wait on
  a group that was at zero returns. Whenever the shutdown case is among the cases the
  task returns; when it is not, the task is still blocked and the counter still
  raised: the loop is left by no other path.
\<close>

theorem refresher_exits_only_on_shutdown:
  "(\<forall>s1. startSessionTicketRefresher st pre s = Blocked s1 \<longrightarrow>
       startSessionTicketRefresher st (pre @ ShutdownTrigger # post) s
         = Returned (s1\<lparr>waitGroup := waitGroup s\<rparr>))
   \<and> (ShutdownTrigger \<in> set cases \<longrightarrow>
        (\<exists>s'. startSessionTicketRefresher st cases s = Returned s'
               \<and> waitGroup s' = waitGroup s
               \<and> (waitGroup s = 0 \<longrightarrow> wg_WaitReturns (waitGroup s'))))
   \<and> (ShutdownTrigger \<notin> set cases \<longrightarrow>
        (\<exists>s'. startSessionTicketRefresher st cases s = Blocked s'
               \<and> waitGroup s' = Suc (waitGroup s) \<and> \<not> wg_WaitReturns (waitGroup s')))"
proof (intro conjI allI impI)
  fix s1
  assume "startSessionTicketRefresher st pre s = Blocked s1"
  then have "runSessionTicketRefresher st pre (s\<lparr>waitGroup := Suc (waitGroup s)\<rparr>) = Blocked s1"
    by (simp add: start_unfold split: Outcome.splits)
  then have "runSessionTicketRefresher st (pre @ ShutdownTrigger # post)
               (s\<lparr>waitGroup := Suc (waitGroup s)\<rparr>) = Returned s1"
    by (rule run_append_shutdown)
  then show "startSessionTicketRefresher st (pre @ ShutdownTrigger # post) s
         = Returned (s1\<lparr>waitGroup := waitGroup s\<rparr>)"
    by (simp add: start_unfold)
next
  assume "ShutdownTrigger \<in> set cases"
  then obtain s' where
    "runSessionTicketRefresher st cases (s\<lparr>waitGroup := Suc (waitGroup s)\<rparr>) = Returned s'"
    using run_returns_iff by blast
  then show "\<exists>s'. startSessionTicketRefresher st cases s = Returned s'
               \<and> waitGroup s' = waitGroup s
               \<and> (waitGroup s = 0 \<longrightarrow> wg_WaitReturns (waitGroup s'))"
    by (simp add: start_unfold wg_WaitReturns_def)
next
  assume "ShutdownTrigger \<notin> set cases"
  then obtain s' where
    r: "runSessionTicketRefresher st cases (s\<lparr>waitGroup := Suc (waitGroup s)\<rparr>) = Blocked s'"
    using run_blocked_iff by blast
  then have "waitGroup s' = Suc (waitGroup s)"
    using run_waitGroup by fastforce
  then show "\<exists>s'. startSessionTicketRefresher st cases s = Blocked s'
               \<and> waitGroup s' = Suc (waitGroup s) \<and> \<not> wg_WaitReturns (waitGroup s')"
    using r by (simp add: start_unfold wg_WaitReturns_def)
qed

text \<open>
  One cycle, then the shutdown case, then a timer case that is never taken: the task
  returns with the log of the one cycle, no \<open>Ticket\<close> call, and the counter at zero.
\<close>

theorem refresher_exits_only_on_shutdown_witness:
  "(\<exists>s1. startSessionTicketRefresher st0 [IntervalElapsed envNoFile] s0 = Blocked s1
          \<and> waitGroup s1 = 1
          \<and> startSessionTicketRefresher st0
               ([IntervalElapsed envNoFile] @ ShutdownTrigger # [IntervalElapsed envRenewOk]) s0
             = Returned (s1\<lparr>waitGroup := 0\<rparr>)
          \<and> ticketCalls s1 = [] \<and> length (logged s1) = 1)
   \<and> waitGroup s0 = 0
   \<and> wg_WaitReturns 0"
proof -
  note t = refresher_exits_only_on_shutdown
    [of st0 "[IntervalElapsed envNoFile]" s0 "[IntervalElapsed envRenewOk]"
        "[IntervalElapsed envNoFile]"]
  have notin: "ShutdownTrigger \<notin> set [IntervalElapsed envNoFile]"
    by simp
  obtain s1 where b: "startSessionTicketRefresher st0 [IntervalElapsed envNoFile] s0 = Blocked s1"
    and w: "waitGroup s1 = Suc (waitGroup s0)"
    using t notin by blast
  have r: "startSessionTicketRefresher st0
               ([IntervalElapsed envNoFile] @ ShutdownTrigger # [IntervalElapsed envRenewOk]) s0
             = Returned (s1\<lparr>waitGroup := waitGroup s0\<rparr>)"
    using t b by blast
  have h: "fst (getProxmoxCredentials (env_fs envNoFile) st0 (openFds (s0\<lparr>waitGroup := Suc (waitGroup s0)\<rparr>))) =
     Inl (Errorf_w (''failed to open credentials file from path=''
                      @ sq ''/etc/fleeting/credentials.json'' @ '': '')
            (errorString ''no such file or directory''))"
    by (simp add: getProxmoxCredentials_def os_Open_def envNoFile_def fsMissing_def st0_def)
  have "runSessionTicketRefresher st0 [IntervalElapsed envNoFile] (s0\<lparr>waitGroup := Suc (waitGroup s0)\<rparr>) = Blocked s1"
    using b by (simp add: start_unfold split: Outcome.splits)
  then have "s1 = refreshCycle st0 envNoFile (s0\<lparr>waitGroup := Suc (waitGroup s0)\<rparr>)"
    by simp
  then have facts: "ticketCalls s1 = [] \<and> length (logged s1) = 1"
    using h by (simp add: refreshCycle_def s0_def split: prod.splits sum.splits)
  have z: "waitGroup s0 = 0"
    by (simp add: s0_def)
  show ?thesis
    using b w r facts z notin by (auto simp: wg_WaitReturns_def)
qed

text \<open>
  C7. In both copies of the loop the confirmation is logged after the renewal has
  failed: the cycle logs the error and then \<open>refreshed proxmox session\<close>.
\<close>

theorem refreshCycle_logs_success_after_failure:
  "logged (refreshCycle st0 envRenewFails s0) =
     [logError ''failed to refresh proxmox session'' (errorString ''401 authentication failure''),
      logInfo ''refreshed proxmox session'']
   \<and> logged (refreshCycle_part000 envRenewFails s0) =
     [logError ''failed to refresh proxmox session'' (errorString ''401 authentication failure''),
      logInfo ''refreshed proxmox session'']"
  using credentials_password_file [of "[]"]
  by (cases "getProxmoxCredentials (fsOf (Inr jsonPasswordMode)) st0 []")
     (simp add: refreshCycle_def refreshCycle_part000_def envRenewFails_def s0_def Let_def)

end
